theory Spec2Isabelle
  imports Main
begin

section \<open>Values exchanged with the libraries\<close>

text \<open>
  The program is one module, \<^verbatim>\<open>src/index.ts\<close>: it reads the process environment, builds a
  cache backend and a plugin list once, registers two routes and listens. Everything else
  (envelop, graphql-helix, the response cache, fastify, the schema loader) is a library.
  The module is modelled as it is written; each library call it makes is either recorded
  in an effect log, or, where the module uses what the call returns, taken from a record
  of library functions over an abstract outside world \<open>'w\<close>.
\<close>

datatype json =
    JNull
  | JBool bool
  | JNum int
  | JStr string
  | JArr "json list"
  | JObj "(string \<times> json) list"

text \<open>\<^verbatim>\<open>process.env\<close>: a variable that is not set reads as \<^verbatim>\<open>undefined\<close>.\<close>

type_synonym env = "string \<rightharpoonup> string"

datatype GraphQLSchema = GraphQLSchema string

text \<open>
  A promise is identified with what it settles to. A promise settles once, so every reader
  of one promise value reads the same settlement.
\<close>

datatype 'a promise = Resolved 'a | Rejected string

datatype redis = Redis "string option"

datatype cache_backend = InMemoryCache | RedisCache redis

record response_cache_options =
  includeExtensionMetadata :: bool
  ignoredTypes :: "string list"
  cache :: cache_backend

datatype plugin =
    useAsyncSchema "GraphQLSchema promise"
  | useResponseCache response_cache_options
  | useLogger

text \<open>
  The request object the handler builds for graphql-helix has the four fields
  \<^verbatim>\<open>body, headers, method, query\<close>; fastify's own request carries the route's url as well.
  The field \<^verbatim>\<open>method\<close> is named \<open>http_method\<close> here.
\<close>

record request =
  body :: "json option"
  headers :: "(string \<times> string) list"
  http_method :: string
  query :: "(string \<times> string) list"

record fastify_request = request +
  url :: string

text \<open>What \<^verbatim>\<open>getGraphQLParameters\<close> returns: \<^verbatim>\<open>{ operationName, query, variables }\<close>.\<close>

record graphql_parameters =
  gp_operationName :: "string option"
  gp_query :: "string option"
  gp_variables :: "json option"

text \<open>
  \<^verbatim>\<open>getEnveloped({ req })\<close> returns the proxy \<^verbatim>\<open>{ parse, validate, contextFactory, execute, schema }\<close>.
  The proxy is kept symbolic: it is determined by the plugin list that \<^verbatim>\<open>envelop\<close> was given
  and by the request.
\<close>

datatype enveloped = Enveloped "plugin list" fastify_request

text \<open>
  The argument of \<^verbatim>\<open>processRequest\<close>. The five fields \<^verbatim>\<open>schema, parse, validate, execute,
  contextFactory\<close> are the destructured proxy, passed on untouched.
\<close>

record process_args =
  pr_operationName :: "string option"
  pr_query :: "string option"
  pr_variables :: "json option"
  pr_request :: request
  pr_enveloped :: enveloped

text \<open>
  The result of \<^verbatim>\<open>processRequest\<close>. The handler reads \<^verbatim>\<open>result.type\<close>, and
  \<^verbatim>\<open>result.status\<close> and \<^verbatim>\<open>result.payload\<close> only when the type is \<^verbatim>\<open>'RESPONSE'\<close>.
\<close>

record process_result =
  result_type :: string
  status :: nat
  payload :: json

datatype effect =
    LoadSchema string "string option"
  | CreateInMemoryCache
  | NewRedis "string option"
  | CreateRedisCache redis
  | Listen nat string
  | ProcessRequest process_args

text \<open>
  The library functions whose results the module uses. \<open>loadSchema w url token\<close> is the
  schema loader called with the endpoint and the access-token header; the promise it
  returns may be rejected. \<open>processRequest\<close> may reject too (\<open>Inl\<close>).
\<close>

record 'w ext =
  loadSchema :: "'w \<Rightarrow> string \<Rightarrow> string option \<Rightarrow> GraphQLSchema promise \<times> 'w"
  getGraphQLParameters :: "request \<Rightarrow> graphql_parameters"
  processRequest :: "'w \<Rightarrow> process_args \<Rightarrow> (string + process_result) \<times> 'w"

type_synonym 'w io = "'w \<times> effect list"

section \<open>Module initialisation\<close>

definition devMode :: "env \<Rightarrow> bool" where
  "devMode e = (e ''NODE_ENV'' = Some ''development'')"

text \<open>\<^verbatim>\<open>require('dotenv').config()\<close>: variables of the file are added, set ones are kept.\<close>

definition dotenv_config :: "env \<Rightarrow> env \<Rightarrow> env" where
  "dotenv_config dotfile e = dotfile ++ e"

text \<open>A template literal prints an unset variable as \<^verbatim>\<open>undefined\<close>.\<close>

definition interpolate :: "string option \<Rightarrow> string" where
  "interpolate v = (case v of None \<Rightarrow> ''undefined'' | Some s \<Rightarrow> s)"

definition schema_url :: "env \<Rightarrow> string" where
  "schema_url e =
     ''https://'' @ interpolate (e ''SHOPIFY_STORE'') @ ''/api/''
       @ interpolate (e ''STOREFRONT_API_VERSION'') @ ''/graphql.json''"

definition getSchema :: "'w ext \<Rightarrow> env \<Rightarrow> 'w io \<Rightarrow> GraphQLSchema promise \<times> 'w io" where
  "getSchema x e io =
     (let tok = e ''STOREFRONT_API_PASSWORD'';
          (p, w') = loadSchema x (fst io) (schema_url e) tok
      in (p, (w', snd io @ [LoadSchema (schema_url e) tok])))"

definition createCache :: "env \<Rightarrow> bool \<Rightarrow> 'w io \<Rightarrow> cache_backend \<times> 'w io" where
  "createCache e dm io =
     (if dm then (InMemoryCache, (fst io, snd io @ [CreateInMemoryCache]))
      else
        (let conn = e ''REDIS_CONNECTION_STRING'';
             r = Redis conn
         in (RedisCache r, (fst io, snd io @ [NewRedis conn, CreateRedisCache r]))))"

text \<open>
  The plugin list: the array literal, whose first element calls \<open>getSchema\<close>, then the
  conditional \<^verbatim>\<open>plugins.push(useLogger())\<close>.
\<close>

definition plugins :: "'w ext \<Rightarrow> env \<Rightarrow> bool \<Rightarrow> cache_backend \<Rightarrow> 'w io \<Rightarrow> plugin list \<times> 'w io" where
  "plugins x e dm c io =
     (let (p, io') = getSchema x e io;
          ps = [useAsyncSchema p,
                useResponseCache
                  \<lparr>includeExtensionMetadata = True, ignoredTypes = [], cache = c\<rparr>]
      in (if dm then ps @ [useLogger] else ps, io'))"

definition appPort :: "bool \<Rightarrow> nat" where
  "appPort dm = (if dm then 3000 else 8080)"

definition appServer :: "bool \<Rightarrow> string" where
  "appServer dm = (if dm then ''localhost'' else ''0.0.0.0'')"

text \<open>
  The module's constants after it has loaded, with the outside world and the log of the
  library calls made so far. \<open>devMode\<close> is read before \<open>dotenv_config\<close> runs, the other
  variables after it.
\<close>

record 'w app_state =
  m_devMode :: bool
  m_env :: env
  m_cache :: cache_backend
  m_plugins :: "plugin list"
  m_world :: 'w
  m_log :: "effect list"

definition init :: "'w ext \<Rightarrow> env \<Rightarrow> env \<Rightarrow> 'w \<Rightarrow> 'w app_state" where
  "init x environ dotfile w =
     (let dm = devMode environ;
          e = dotenv_config dotfile environ;
          (c, io1) = createCache e dm (w, []);
          (ps, io2) = plugins x e dm c io1
      in \<lparr>m_devMode = dm, m_env = e, m_cache = c, m_plugins = ps,
          m_world = fst io2,
          m_log = snd io2 @ [Listen (appPort dm) (appServer dm)]\<rparr>)"

text \<open>\<^verbatim>\<open>const getEnveloped = envelop({plugins})\<close>, built once from the finished list.\<close>

definition getEnveloped :: "'w app_state \<Rightarrow> fastify_request \<Rightarrow> enveloped" where
  "getEnveloped m req = Enveloped (m_plugins m) req"

section \<open>Request handling\<close>

datatype reply_body = Text string | Json json

text \<open>
  The reply object: the status code the handler has set, if any, and what it has sent.
\<close>

record reply =
  statusCode :: "nat option"
  sent :: "reply_body option"

definition new_reply :: reply where
  "new_reply = \<lparr>statusCode = None, sent = None\<rparr>"

definition res_status :: "nat \<Rightarrow> reply \<Rightarrow> reply" where
  "res_status n res = res\<lparr>statusCode := Some n\<rparr>"

definition res_send :: "reply_body \<Rightarrow> reply \<Rightarrow> reply" where
  "res_send b res = res\<lparr>sent := Some b\<rparr>"

definition hello_handler :: "fastify_request \<Rightarrow> reply \<Rightarrow> reply" where
  "hello_handler req res = res_send (Text ''Hello World!'') res"

definition not_supported :: json where
  "not_supported =
     JObj [(''errors'', JArr [JObj [(''message'', JStr ''Not Supported in this demo'')]])]"

definition handler_args :: "'w ext \<Rightarrow> 'w app_state \<Rightarrow> fastify_request \<Rightarrow> process_args" where
  "handler_args x m req =
     (let enveloped = getEnveloped m req;
          request = request.truncate req;
          ps = getGraphQLParameters x request
      in \<lparr>pr_operationName = gp_operationName ps, pr_query = gp_query ps,
          pr_variables = gp_variables ps, pr_request = request,
          pr_enveloped = enveloped\<rparr>)"

text \<open>
  The handler of \<^verbatim>\<open>/graphql\<close>. \<open>Inl\<close> is the rejection of the awaited \<^verbatim>\<open>processRequest\<close>,
  which the handler does not catch.
\<close>

definition handler :: "'w ext \<Rightarrow> 'w app_state \<Rightarrow> fastify_request \<Rightarrow> reply
    \<Rightarrow> (string + reply) \<times> 'w app_state" where
  "handler x m req res =
     (let args = handler_args x m req;
          (r, w') = processRequest x (m_world m) args;
          m' = m\<lparr>m_world := w', m_log := m_log m @ [ProcessRequest args]\<rparr>
      in case r of
           Inl err \<Rightarrow> (Inl err, m')
         | Inr result \<Rightarrow>
             if result_type result = ''RESPONSE''
             then (Inr (res_send (Json (payload result)) (res_status (status result) res)), m')
             else (Inr (res_send (Json not_supported) res), m'))"

subsection \<open>Routes\<close>

datatype route_handler = HelloWorld | GraphQL

record route =
  r_method :: "string list"
  r_url :: string
  r_handler :: route_handler

definition routes :: "route list" where
  "routes =
     [\<lparr>r_method = [''GET''], r_url = ''/'', r_handler = HelloWorld\<rparr>,
      \<lparr>r_method = [''POST'', ''GET''], r_url = ''/graphql'', r_handler = GraphQL\<rparr>]"

text \<open>
  Routing is done by fastify, a library: a request goes to the route registered for its
  method and url, and to none when no registration matches.
\<close>

fun find_route :: "route list \<Rightarrow> string \<Rightarrow> string \<Rightarrow> route_handler option" where
  "find_route [] m u = None"
| "find_route (r # rs) m u =
     (if m \<in> set (r_method r) \<and> u = r_url r then Some (r_handler r) else find_route rs m u)"

datatype outcome = Replied reply | Threw string | NotFound

definition serve :: "'w ext \<Rightarrow> 'w app_state \<Rightarrow> fastify_request \<Rightarrow> outcome \<times> 'w app_state" where
  "serve x m req =
     (case find_route routes (http_method req) (url req) of
        None \<Rightarrow> (NotFound, m)
      | Some HelloWorld \<Rightarrow> (Replied (hello_handler req new_reply), m)
      | Some GraphQL \<Rightarrow>
          (case handler x m req new_reply of
             (Inl err, m') \<Rightarrow> (Threw err, m')
           | (Inr res, m') \<Rightarrow> (Replied res, m')))"

text \<open>A process run: the requests are served one after another from the loaded module.\<close>

fun run :: "'w ext \<Rightarrow> 'w app_state \<Rightarrow> fastify_request list \<Rightarrow> outcome list \<times> 'w app_state" where
  "run x m [] = ([], m)"
| "run x m (req # reqs) =
     (let (out, m') = serve x m req;
          (outs, m'') = run x m' reqs
      in (out # outs, m''))"

section \<open>Observations on a run\<close>

text \<open>
  A process loads the module and then serves requests. The functions below read the effect
  log and the plugin list; the properties are stated with them.
\<close>

fun is_LoadSchema :: "effect \<Rightarrow> bool" where
  "is_LoadSchema (LoadSchema u t) = True"
| "is_LoadSchema ev = False"

fun is_cache_creation :: "effect \<Rightarrow> bool" where
  "is_cache_creation CreateInMemoryCache = True"
| "is_cache_creation (CreateRedisCache r) = True"
| "is_cache_creation ev = False"

fun processed :: "effect list \<Rightarrow> process_args list" where
  "processed [] = []"
| "processed (ProcessRequest a # evs) = a # processed evs"
| "processed (ev # evs) = processed evs"

fun schema_promise_of :: "plugin list \<Rightarrow> GraphQLSchema promise option" where
  "schema_promise_of [] = None"
| "schema_promise_of (useAsyncSchema p # ps) = Some p"
| "schema_promise_of (q # ps) = schema_promise_of ps"

fun response_cache_options_of :: "plugin list \<Rightarrow> response_cache_options option" where
  "response_cache_options_of [] = None"
| "response_cache_options_of (useResponseCache opts # ps) = Some opts"
| "response_cache_options_of (q # ps) = response_cache_options_of ps"

fun enveloped_plugins :: "enveloped \<Rightarrow> plugin list" where
  "enveloped_plugins (Enveloped ps req) = ps"

definition graphql_route :: "fastify_request \<Rightarrow> bool" where
  "graphql_route req = (find_route routes (http_method req) (url req) = Some GraphQL)"

definition process :: "'w ext \<Rightarrow> env \<Rightarrow> env \<Rightarrow> 'w \<Rightarrow> fastify_request list
    \<Rightarrow> outcome list \<times> 'w app_state" where
  "process x environ dotfile w reqs = run x (init x environ dotfile w) reqs"




text \<open>
  Modelled from the spec: the response-cache plugin itself (\<^verbatim>\<open>@envelop/response-cache\<close>) is a
  library outside the module, which only passes it the options. The glossary says that
  ignored types are "GraphQL type names whose presence in a response disqualifies that
  response from being cached": \<open>contains_ignored_type opts tys\<close> holds when a result
  whose GraphQL types are \<open>tys\<close> is disqualified under the options.
\<close>

definition contains_ignored_type :: "response_cache_options \<Rightarrow> string list \<Rightarrow> bool" where
  "contains_ignored_type opts tys = list_ex (\<lambda>t. t \<in> set (ignoredTypes opts)) tys"

datatype cache_outcome = HIT | MISS


section \<open>Example environments and libraries\<close>

text \<open>
  Concrete inputs on which the theorems are instantiated. The outside world of the example
  libraries is the number of schema fetches made so far; \<open>up k\<close> is what the upstream
  answers to fetch number \<open>k\<close>.
\<close>

definition example_request :: "string \<Rightarrow> string \<Rightarrow> fastify_request" where
  "example_request m u = \<lparr>body = None, headers = [], http_method = m, query = [], url = u\<rparr>"

definition example_ext :: "(nat \<Rightarrow> GraphQLSchema promise)
    \<Rightarrow> (process_args \<Rightarrow> string + process_result) \<Rightarrow> nat ext" where
  "example_ext up pr =
     \<lparr>loadSchema = (\<lambda>w u t. (up w, Suc w)),
      getGraphQLParameters = (\<lambda>r. \<lparr>gp_operationName = None,
         gp_query = Some ''{ shop { name } }'', gp_variables = None\<rparr>),
      processRequest = (\<lambda>w a. (pr a, w))\<rparr>"

definition always_up :: "nat \<Rightarrow> GraphQLSchema promise" where
  "always_up k = Resolved (GraphQLSchema ''shop'')"

definition fails_once :: "nat \<Rightarrow> GraphQLSchema promise" where
  "fails_once k =
     (if k = 0 then Rejected ''upstream down'' else Resolved (GraphQLSchema ''shop''))"

definition responds :: "process_args \<Rightarrow> string + process_result" where
  "responds a = Inr \<lparr>result_type = ''RESPONSE'', status = 200,
                     payload = JObj [(''data'', JObj [(''shop'', JNull)])]\<rparr>"

definition streams :: "process_args \<Rightarrow> string + process_result" where
  "streams a = Inr \<lparr>result_type = ''MULTIPART_RESPONSE'', status = 0, payload = JNull\<rparr>"

text \<open>A library whose response carries the cache outcome in its extensions.\<close>

definition reports_miss :: "process_args \<Rightarrow> string + process_result" where
  "reports_miss a = Inr \<lparr>result_type = ''RESPONSE'', status = 200,
     payload = JObj [(''data'', JObj [(''shop'', JNull)]),
                     (''extensions'', JObj [(''responseCache'', JObj [(''hit'', JBool False)])])]\<rparr>"

text \<open>A library that processes a request only when the schema promise it is given resolved.\<close>

definition needs_schema :: "process_args \<Rightarrow> string + process_result" where
  "needs_schema a =
     (case schema_promise_of (enveloped_plugins (pr_enveloped a)) of
        Some (Resolved s) \<Rightarrow> responds a
      | _ \<Rightarrow> Inl ''schema unavailable'')"

definition dev_env :: env where
  "dev_env = [''NODE_ENV'' \<mapsto> ''development'']"

definition prod_env :: env where
  "prod_env = [''NODE_ENV'' \<mapsto> ''production'',
               ''REDIS_CONNECTION_STRING'' \<mapsto> ''redis://cache:6379'']"

lemmas model_defs =
  process_def init_def plugins_def getSchema_def createCache_def Let_def serve_def
  handler_def handler_args_def getEnveloped_def routes_def new_reply_def res_send_def
  res_status_def hello_handler_def not_supported_def devMode_def dotenv_config_def
  schema_url_def interpolate_def appPort_def appServer_def

lemmas example_defs =
  example_ext_def example_request_def always_up_def fails_once_def responds_def
  streams_def reports_miss_def needs_schema_def dev_env_def prod_env_def

section \<open>What request handling leaves unchanged\<close>

lemma handler_args_plugins:
  "m_plugins m' = m_plugins m \<Longrightarrow> handler_args x m' req = handler_args x m req"
  by (simp add: handler_args_def getEnveloped_def)

lemma handler_state:
  "snd (handler x m req res) =
     m\<lparr>m_world := snd (processRequest x (m_world m) (handler_args x m req)),
       m_log := m_log m @ [ProcessRequest (handler_args x m req)]\<rparr>"
  by (simp add: handler_def Let_def split: prod.splits sum.splits)

lemma serve_state:
  "snd (serve x m req) =
     (if graphql_route req
      then m\<lparr>m_world := snd (processRequest x (m_world m) (handler_args x m req)),
             m_log := m_log m @ [ProcessRequest (handler_args x m req)]\<rparr>
      else m)"
proof (cases "find_route routes (http_method req) (url req)")
  case None
  then show ?thesis by (simp add: serve_def graphql_route_def)
next
  case (Some h)
  show ?thesis
  proof (cases h)
    case HelloWorld
    with Some show ?thesis by (simp add: serve_def graphql_route_def)
  next
    case GraphQL
    have "snd (serve x m req) = snd (handler x m req new_reply)"
      using Some GraphQL by (simp add: serve_def split: prod.splits sum.splits)
    with Some GraphQL show ?thesis by (simp add: handler_state graphql_route_def)
  qed
qed

lemma serve_plugins: "m_plugins (snd (serve x m req)) = m_plugins m"
  by (simp add: serve_state)

lemma serve_cache: "m_cache (snd (serve x m req)) = m_cache m"
  by (simp add: serve_state)

lemma serve_log:
  "m_log (snd (serve x m req)) =
     m_log m @ (if graphql_route req then [ProcessRequest (handler_args x m req)] else [])"
  by (simp add: serve_state)

lemma run_snd_Cons: "snd (run x m (req # reqs)) = snd (run x (snd (serve x m req)) reqs)"
  by (simp add: Let_def split: prod.splits)

lemma run_plugins: "m_plugins (snd (run x m reqs)) = m_plugins m"
proof (induction reqs arbitrary: m)
  case Nil
  show ?case by simp
next
  case (Cons req reqs)
  show ?case by (simp only: run_snd_Cons Cons.IH serve_plugins)
qed

lemma run_cache: "m_cache (snd (run x m reqs)) = m_cache m"
proof (induction reqs arbitrary: m)
  case Nil
  show ?case by simp
next
  case (Cons req reqs)
  show ?case by (simp only: run_snd_Cons Cons.IH serve_cache)
qed

lemma run_log:
  "m_log (snd (run x m reqs)) =
     m_log m @ map (\<lambda>req. ProcessRequest (handler_args x m req)) (filter graphql_route reqs)"
proof (induction reqs arbitrary: m)
  case Nil
  show ?case by simp
next
  case (Cons req reqs)
  let ?m' = "snd (serve x m req)"
  have args: "handler_args x ?m' r = handler_args x m r" for r
    by (rule handler_args_plugins) (rule serve_plugins)
  have "m_log (snd (run x m (req # reqs))) = m_log (snd (run x ?m' reqs))"
    by (simp only: run_snd_Cons)
  also have "\<dots> = m_log ?m' @
      map (\<lambda>r. ProcessRequest (handler_args x ?m' r)) (filter graphql_route reqs)"
    by (rule Cons.IH)
  also have "\<dots> = m_log ?m' @
      map (\<lambda>r. ProcessRequest (handler_args x m r)) (filter graphql_route reqs)"
    by (simp only: args)
  also have "m_log ?m' =
      m_log m @ (if graphql_route req then [ProcessRequest (handler_args x m req)] else [])"
    by (rule serve_log)
  finally show ?case by simp
qed

lemma filter_map_ProcessRequest:
  "filter is_LoadSchema (map (\<lambda>req. ProcessRequest (f req)) reqs) = []"
  "filter is_cache_creation (map (\<lambda>req. ProcessRequest (f req)) reqs) = []"
  by (induction reqs) simp_all

lemma processed_append: "processed (evs @ evs') = processed evs @ processed evs'"
  by (induction evs rule: processed.induct) simp_all

lemma processed_map: "processed (map (\<lambda>req. ProcessRequest (f req)) reqs) = map f reqs"
  by (induction reqs) simp_all

lemma init_plugins:
  "m_plugins (init x environ dotfile w) =
     [useAsyncSchema (fst (loadSchema x w (schema_url (dotenv_config dotfile environ))
                             (dotenv_config dotfile environ ''STOREFRONT_API_PASSWORD''))),
      useResponseCache \<lparr>includeExtensionMetadata = True, ignoredTypes = [],
        cache = (if devMode environ then InMemoryCache
                 else RedisCache (Redis (dotenv_config dotfile environ ''REDIS_CONNECTION_STRING'')))\<rparr>]
     @ (if devMode environ then [useLogger] else [])"
  by (simp add: init_def plugins_def getSchema_def createCache_def Let_def split: prod.splits)

lemma init_cache:
  "m_cache (init x environ dotfile w) =
     (if devMode environ then InMemoryCache
      else RedisCache (Redis (dotenv_config dotfile environ ''REDIS_CONNECTION_STRING'')))"
  by (simp add: init_def plugins_def getSchema_def createCache_def Let_def split: prod.splits)

lemma init_log:
  "m_log (init x environ dotfile w) =
     (if devMode environ then [CreateInMemoryCache]
      else [NewRedis (dotenv_config dotfile environ ''REDIS_CONNECTION_STRING''),
            CreateRedisCache (Redis (dotenv_config dotfile environ ''REDIS_CONNECTION_STRING''))])
     @ [LoadSchema (schema_url (dotenv_config dotfile environ))
          (dotenv_config dotfile environ ''STOREFRONT_API_PASSWORD''),
        Listen (appPort (devMode environ)) (appServer (devMode environ))]"
  by (simp add: init_def plugins_def getSchema_def createCache_def Let_def split: prod.splits)

lemma process_loads:
  "filter is_LoadSchema (m_log (snd (process x environ dotfile w reqs))) =
     [LoadSchema (schema_url (dotenv_config dotfile environ))
        (dotenv_config dotfile environ ''STOREFRONT_API_PASSWORD'')]"
  by (simp add: process_def run_log init_log filter_map_ProcessRequest)

lemma process_promises:
  "a \<in> set (processed (m_log (snd (process x environ dotfile w reqs)))) \<Longrightarrow>
     schema_promise_of (enveloped_plugins (pr_enveloped a)) =
       Some (fst (loadSchema x w (schema_url (dotenv_config dotfile environ))
                    (dotenv_config dotfile environ ''STOREFRONT_API_PASSWORD'')))"
  by (auto simp add: process_def run_log init_log processed_append processed_map
        handler_args_def getEnveloped_def init_plugins Let_def
        split: if_splits)


lemma handler_setmode:
  "handler x (m\<lparr>m_devMode := b\<rparr>) req res =
      (fst (handler x m req res), (snd (handler x m req res))\<lparr>m_devMode := b\<rparr>)"
proof -
  have args: "handler_args x (m\<lparr>m_devMode := b\<rparr>) req = handler_args x m req"
    by (rule handler_args_plugins) simp
  obtain r w' where pr: "processRequest x (m_world m) (handler_args x m req) = (r, w')"
    by (cases "processRequest x (m_world m) (handler_args x m req)")
  show ?thesis
    by (cases r) (simp_all add: handler_def args pr Let_def)
qed

lemma serve_setmode:
  "serve x (m\<lparr>m_devMode := b\<rparr>) req =
      (fst (serve x m req), (snd (serve x m req))\<lparr>m_devMode := b\<rparr>)"
proof (cases "find_route routes (http_method req) (url req)")
  case None
  then show ?thesis by (simp add: serve_def)
next
  case (Some h)
  show ?thesis
  proof (cases h)
    case HelloWorld
    with Some show ?thesis by (simp add: serve_def)
  next
    case GraphQL
    obtain r m' where hr: "handler x m req new_reply = (r, m')"
      by (cases "handler x m req new_reply")
    show ?thesis
      using Some GraphQL by (cases r) (simp_all add: serve_def handler_setmode hr)
  qed
qed

lemma run_setmode:
  "run x (m\<lparr>m_devMode := b\<rparr>) reqs = (fst (run x m reqs), (snd (run x m reqs))\<lparr>m_devMode := b\<rparr>)"
proof (induction reqs arbitrary: m)
  case Nil
  show ?case by simp
next
  case (Cons req reqs)
  obtain out m' where s: "serve x m req = (out, m')"
    by (cases "serve x m req")
  obtain outs m'' where r: "run x m' reqs = (outs, m'')"
    by (cases "run x m' reqs")
  have "run x (m'\<lparr>m_devMode := b\<rparr>) reqs = (outs, m''\<lparr>m_devMode := b\<rparr>)"
    using Cons.IH [of m'] r by simp
  then show ?case
    using s r by (simp add: serve_setmode)
qed


lemma process_plugins:
  "m_plugins (snd (process x environ dotfile w reqs)) = m_plugins (init x environ dotfile w)"
  by (simp add: process_def run_plugins)



section \<open>Schema acquisition\<close>

text \<open>
  C2. Schema acquisition is single-flight. In every process, whatever requests it serves,
  the log holds exactly one schema fetch, the one \<open>getSchema\<close> makes while the module
  loads, and every request handed to \<open>processRequest\<close> carries the promise of that fetch.
\<close>

theorem single_flight:
  "filter is_LoadSchema (m_log (snd (process x environ dotfile w reqs))) =
     [LoadSchema (schema_url (dotenv_config dotfile environ))
        (dotenv_config dotfile environ ''STOREFRONT_API_PASSWORD'')] \<and>
   (\<forall>a \<in> set (processed (m_log (snd (process x environ dotfile w reqs)))).
      schema_promise_of (enveloped_plugins (pr_enveloped a)) =
        Some (fst (loadSchema x w (schema_url (dotenv_config dotfile environ))
                     (dotenv_config dotfile environ ''STOREFRONT_API_PASSWORD''))))"
  by (simp add: process_loads process_promises)

theorem single_flight_witness:
  "filter is_LoadSchema (m_log (snd (process (example_ext always_up responds) prod_env Map.empty 0
      [example_request ''POST'' ''/graphql'', example_request ''GET'' ''/graphql'']))) =
     [LoadSchema ''https://undefined/api/undefined/graphql.json'' None] \<and>
   map (\<lambda>a. schema_promise_of (enveloped_plugins (pr_enveloped a)))
     (processed (m_log (snd (process (example_ext always_up responds) prod_env Map.empty 0
      [example_request ''POST'' ''/graphql'', example_request ''GET'' ''/graphql''])))) =
     [Some (Resolved (GraphQLSchema ''shop'')), Some (Resolved (GraphQLSchema ''shop''))]"
  using single_flight [of "example_ext always_up responds" prod_env Map.empty 0
      "[example_request ''POST'' ''/graphql'', example_request ''GET'' ''/graphql'']"]
  by (simp add: model_defs example_defs)

text \<open>
  C1, as the spec states it, fails: with an upstream that rejects the first fetch and would
  answer the second, two requests are served, the log still holds the single fetch of
  module load, both requests are processed with the rejected promise, and neither
  succeeds.
\<close>

theorem failure_not_cached_counterexample:
  "fails_once 0 = Rejected ''upstream down'' \<and>
   fails_once 1 = Resolved (GraphQLSchema ''shop'') \<and>
   filter is_LoadSchema (m_log (snd (process (example_ext fails_once needs_schema) prod_env Map.empty 0
      [example_request ''POST'' ''/graphql'', example_request ''POST'' ''/graphql'']))) =
     [LoadSchema ''https://undefined/api/undefined/graphql.json'' None] \<and>
   map (\<lambda>a. schema_promise_of (enveloped_plugins (pr_enveloped a)))
     (processed (m_log (snd (process (example_ext fails_once needs_schema) prod_env Map.empty 0
      [example_request ''POST'' ''/graphql'', example_request ''POST'' ''/graphql''])))) =
     [Some (Rejected ''upstream down''), Some (Rejected ''upstream down'')] \<and>
   fst (process (example_ext fails_once needs_schema) prod_env Map.empty 0
      [example_request ''POST'' ''/graphql'', example_request ''POST'' ''/graphql'']) =
     [Threw ''schema unavailable'', Threw ''schema unavailable'']"
  by (simp add: model_defs example_defs)

text \<open>
  C1, amended. A failed schema acquisition is kept for the life of the process: when the
  fetch made at module load is rejected, no request triggers another fetch, and every
  request is processed with that same rejected promise.
\<close>

theorem failed_acquisition_is_kept:
  assumes "fst (loadSchema x w (schema_url (dotenv_config dotfile environ))
                  (dotenv_config dotfile environ ''STOREFRONT_API_PASSWORD'')) = Rejected err"
  shows "length (filter is_LoadSchema (m_log (snd (process x environ dotfile w reqs)))) = 1 \<and>
     (\<forall>a \<in> set (processed (m_log (snd (process x environ dotfile w reqs)))).
        schema_promise_of (enveloped_plugins (pr_enveloped a)) = Some (Rejected err))"
  using assms by (simp add: process_loads process_promises)


theorem failed_acquisition_is_kept_witness:
  "fst (loadSchema (example_ext fails_once needs_schema) 0
         (schema_url (dotenv_config Map.empty prod_env))
         (dotenv_config Map.empty prod_env ''STOREFRONT_API_PASSWORD'')) = Rejected ''upstream down'' \<and>
   length (filter is_LoadSchema (m_log (snd (process (example_ext fails_once needs_schema) prod_env
      Map.empty 0 [example_request ''GET'' ''/graphql''])))) = 1 \<and>
   processed (m_log (snd (process (example_ext fails_once needs_schema) prod_env Map.empty 0
      [example_request ''GET'' ''/graphql'']))) \<noteq> [] \<and>
   schema_promise_of (enveloped_plugins (pr_enveloped (hd
      (processed (m_log (snd (process (example_ext fails_once needs_schema) prod_env Map.empty 0
         [example_request ''GET'' ''/graphql'']))))))) = Some (Rejected ''upstream down'')"
proof -
  let ?P = "processed (m_log (snd (process (example_ext fails_once needs_schema) prod_env
      Map.empty 0 [example_request ''GET'' ''/graphql''])))"
  have h: "fst (loadSchema (example_ext fails_once needs_schema) 0
         (schema_url (dotenv_config Map.empty prod_env))
         (dotenv_config Map.empty prod_env ''STOREFRONT_API_PASSWORD'')) = Rejected ''upstream down''"
    by (simp add: example_ext_def fails_once_def)
  have ne: "?P \<noteq> []"
    by (simp add: model_defs example_defs)
  then have "hd ?P \<in> set ?P"
    by (rule hd_in_set)
  then show ?thesis
    using h ne failed_acquisition_is_kept [OF h, of "[example_request ''GET'' ''/graphql'']"]
    by blast
qed

section \<open>Cache backend and plugin list\<close>

text \<open>
  C3. The cache backend is chosen once, while the module loads, from the development-mode
  switch: the in-memory cache in development mode, otherwise the Redis cache on the
  configured connection string. Whatever requests the process serves, the log holds that
  one cache creation, the module's cache and the cache the response-cache plugin was given
  stay the one created, and the outcomes of the requests do not depend on the mode flag
  the module holds.
\<close>

theorem backend_chosen_once:
  "m_cache (init x environ dotfile w) =
     (if devMode environ then InMemoryCache
      else RedisCache (Redis (dotenv_config dotfile environ ''REDIS_CONNECTION_STRING''))) \<and>
   filter is_cache_creation (m_log (snd (process x environ dotfile w reqs))) =
     [if devMode environ then CreateInMemoryCache
      else CreateRedisCache (Redis (dotenv_config dotfile environ ''REDIS_CONNECTION_STRING''))] \<and>
   m_cache (snd (process x environ dotfile w reqs)) = m_cache (init x environ dotfile w) \<and>
   map_option cache (response_cache_options_of (m_plugins (snd (process x environ dotfile w reqs))))
     = Some (m_cache (init x environ dotfile w)) \<and>
   fst (run x ((init x environ dotfile w)\<lparr>m_devMode := b\<rparr>) reqs) =
     fst (process x environ dotfile w reqs)"
proof -
  have "filter is_cache_creation (m_log (snd (process x environ dotfile w reqs))) =
     [if devMode environ then CreateInMemoryCache
      else CreateRedisCache (Redis (dotenv_config dotfile environ ''REDIS_CONNECTION_STRING''))]"
    by (simp add: process_def run_log init_log filter_map_ProcessRequest)
  moreover have "m_cache (snd (process x environ dotfile w reqs)) = m_cache (init x environ dotfile w)"
    by (simp add: process_def run_cache)
  moreover have "map_option cache
      (response_cache_options_of (m_plugins (snd (process x environ dotfile w reqs))))
     = Some (m_cache (init x environ dotfile w))"
    by (simp add: process_plugins init_plugins init_cache)
  moreover have "fst (run x ((init x environ dotfile w)\<lparr>m_devMode := b\<rparr>) reqs) =
     fst (process x environ dotfile w reqs)"
    by (simp add: run_setmode process_def)
  ultimately show ?thesis
    by (simp only: init_cache simp_thms)
qed

theorem backend_chosen_once_witness:
  "m_cache (init (example_ext always_up responds) prod_env Map.empty 0) =
     RedisCache (Redis (Some ''redis://cache:6379'')) \<and>
   filter is_cache_creation (m_log (snd (process (example_ext always_up responds) prod_env Map.empty 0
      [example_request ''POST'' ''/graphql'', example_request ''GET'' ''/'']))) =
     [CreateRedisCache (Redis (Some ''redis://cache:6379''))] \<and>
   m_cache (init (example_ext always_up responds) dev_env Map.empty 0) = InMemoryCache"
  using backend_chosen_once [of "example_ext always_up responds" prod_env Map.empty 0
      "[example_request ''POST'' ''/graphql'', example_request ''GET'' ''/'']" True]
    backend_chosen_once [of "example_ext always_up responds" dev_env Map.empty 0 "[]" False]
  by (simp add: devMode_def dotenv_config_def example_defs)

text \<open>
  C5. The plugin list has a fixed order: the schema stage first, the response-cache stage
  second, and the logger after both exactly when the process runs in development mode.
\<close>

theorem plugin_order:
  "\<exists>p opts. m_plugins (snd (process x environ dotfile w reqs)) =
      [useAsyncSchema p, useResponseCache opts] @ (if devMode environ then [useLogger] else [])"
  by (simp add: process_plugins init_plugins)

theorem plugin_order_witness:
  "(\<exists>p opts. m_plugins (snd (process (example_ext always_up responds) dev_env Map.empty 0
       [example_request ''GET'' ''/graphql''])) = [useAsyncSchema p, useResponseCache opts, useLogger]) \<and>
   (\<exists>p opts. m_plugins (snd (process (example_ext always_up responds) prod_env Map.empty 0
       [example_request ''GET'' ''/graphql''])) = [useAsyncSchema p, useResponseCache opts])"
  using plugin_order [of "example_ext always_up responds" dev_env Map.empty 0
      "[example_request ''GET'' ''/graphql'']"]
    plugin_order [of "example_ext always_up responds" prod_env Map.empty 0
      "[example_request ''GET'' ''/graphql'']"]
  by (simp add: devMode_def dev_env_def prod_env_def)

text \<open>
  C8. The ignored-types list of the response cache is empty in every process, so no list
  of GraphQL types in a result disqualifies it from being cached.
\<close>

theorem ignored_types_empty:
  "\<exists>opts. response_cache_options_of (m_plugins (snd (process x environ dotfile w reqs))) = Some opts \<and>
      ignoredTypes opts = [] \<and> (\<forall>tys. \<not> contains_ignored_type opts tys)"
  by (simp add: process_plugins init_plugins contains_ignored_type_def list_ex_iff)

theorem ignored_types_empty_witness:
  "\<exists>opts. response_cache_options_of (m_plugins (snd (process (example_ext always_up responds)
       prod_env Map.empty 0 [example_request ''GET'' ''/graphql'']))) = Some opts \<and>
     ignoredTypes opts = [] \<and> \<not> contains_ignored_type opts [''Shop'', ''Product'']"
  using ignored_types_empty [of "example_ext always_up responds" prod_env Map.empty 0
      "[example_request ''GET'' ''/graphql'']"]
  by blast





section \<open>The handlers\<close>

text \<open>
  C6. When \<open>processRequest\<close> yields a result of type \<^verbatim>\<open>'RESPONSE'\<close>, the handler sets the
  reply's status to the result's status and sends the result's payload, unchanged.
\<close>

theorem handler_response:
  assumes "processRequest x (m_world m) (handler_args x m req) = (Inr result, w')"
    and "result_type result = ''RESPONSE''"
  shows "fst (handler x m req res) =
           Inr (res\<lparr>statusCode := Some (status result), sent := Some (Json (payload result))\<rparr>)"
  using assms by (simp add: handler_def Let_def res_send_def res_status_def)

theorem handler_response_witness:
  "fst (handler (example_ext always_up responds)
         (init (example_ext always_up responds) dev_env Map.empty 0)
         (example_request ''POST'' ''/graphql'') new_reply) =
     Inr \<lparr>statusCode = Some 200,
          sent = Some (Json (JObj [(''data'', JObj [(''shop'', JNull)])]))\<rparr>"
proof -
  let ?x = "example_ext always_up responds"
  let ?m = "init ?x dev_env Map.empty 0"
  let ?req = "example_request ''POST'' ''/graphql''"
  let ?result = "\<lparr>result_type = ''RESPONSE'', status = 200,
                   payload = JObj [(''data'', JObj [(''shop'', JNull)])]\<rparr>"
  have p: "processRequest ?x (m_world ?m) (handler_args ?x ?m ?req) = (Inr ?result, m_world ?m)"
    by (simp add: example_ext_def responds_def)
  have t: "result_type ?result = ''RESPONSE''"
    by simp
  show ?thesis
    using handler_response [OF p t, of new_reply] by (simp add: new_reply_def)
qed

text \<open>
  C4. When \<open>processRequest\<close> yields a result whose type is not \<^verbatim>\<open>'RESPONSE'\<close>, the handler
  sends the fixed payload \<^verbatim>\<open>{errors: [{message: 'Not Supported in this demo'}]}\<close>; it sets no
  status and does not throw.
\<close>

theorem handler_not_supported:
  assumes "processRequest x (m_world m) (handler_args x m req) = (Inr result, w')"
    and "result_type result \<noteq> ''RESPONSE''"
  shows "fst (handler x m req res) =
           Inr (res\<lparr>sent := Some (Json (JObj [(''errors'',
                  JArr [JObj [(''message'', JStr ''Not Supported in this demo'')]])]))\<rparr>)"
  using assms by (simp add: handler_def Let_def res_send_def not_supported_def)

theorem handler_not_supported_witness:
  "fst (handler (example_ext always_up streams)
         (init (example_ext always_up streams) dev_env Map.empty 0)
         (example_request ''POST'' ''/graphql'') new_reply) =
     Inr \<lparr>statusCode = None,
          sent = Some (Json (JObj [(''errors'',
                  JArr [JObj [(''message'', JStr ''Not Supported in this demo'')]])]))\<rparr>"
proof -
  let ?x = "example_ext always_up streams"
  let ?m = "init ?x dev_env Map.empty 0"
  let ?req = "example_request ''POST'' ''/graphql''"
  let ?result = "\<lparr>result_type = ''MULTIPART_RESPONSE'', status = 0, payload = JNull\<rparr>"
  have p: "processRequest ?x (m_world ?m) (handler_args ?x ?m ?req) = (Inr ?result, m_world ?m)"
    by (simp add: example_ext_def streams_def)
  have t: "result_type ?result \<noteq> ''RESPONSE''"
    by simp
  show ?thesis
    using handler_not_supported [OF p t, of new_reply] by (simp add: new_reply_def)
qed

text \<open>
  C10. A GET request to the route \<^verbatim>\<open>/\<close> is answered with the text \<^verbatim>\<open>Hello World!\<close>, whatever
  the libraries and the state of the process are, and the state is left as it was.
\<close>

theorem hello_world:
  assumes "http_method req = ''GET''" and "url req = ''/''"
  shows "serve x m req = (Replied \<lparr>statusCode = None, sent = Some (Text ''Hello World!'')\<rparr>, m)"
  using assms by (simp add: serve_def routes_def hello_handler_def res_send_def new_reply_def)

theorem hello_world_witness:
  "serve (example_ext fails_once needs_schema)
      (init (example_ext fails_once needs_schema) prod_env Map.empty 0)
      (example_request ''GET'' ''/'') =
     (Replied \<lparr>statusCode = None, sent = Some (Text ''Hello World!'')\<rparr>,
      init (example_ext fails_once needs_schema) prod_env Map.empty 0)"
proof -
  have m: "http_method (example_request ''GET'' ''/'') = ''GET''"
    by (simp add: example_request_def)
  have u: "url (example_request ''GET'' ''/'') = ''/''"
    by (simp add: example_request_def)
  show ?thesis
    by (rule hello_world [OF m u])
qed

end
